theory Spec2Isabelle
  imports Main "HOL-Library.Log_Nat" "HOL-Library.Multiset"
begin

section \<open>Python values used by p6.py\<close>

text \<open>
  The exceptions that the modelled code can raise. A raised exception is the \<open>Inl\<close>
  branch of a sum type; \<open>ebind\<close> sequences two fallible steps and \<open>emap\<close> is a list
  comprehension (or a \<open>for\<close> loop that appends) whose body may raise: the first
  exception in iteration order wins. \<open>Raised\<close> stands for whatever exception the
  user's target function raised, with its text.
\<close>

datatype error =
    ZeroDivisionError
  | OverflowError
  | ValueError
  | TypeError
  | AttributeError string
  | OSError int string
  | ImportError string
  | SystemExit int
  | Raised string

definition ebind :: "error + 'a \<Rightarrow> ('a \<Rightarrow> error + 'b) \<Rightarrow> error + 'b" where
  "ebind m f = (case m of Inl e \<Rightarrow> Inl e | Inr x \<Rightarrow> f x)"

fun emap :: "('a \<Rightarrow> error + 'b) \<Rightarrow> 'a list \<Rightarrow> error + 'b list" where
  "emap f [] = Inr []"
| "emap f (x # xs) = ebind (f x) (\<lambda>y. ebind (emap f xs) (\<lambda>ys. Inr (y # ys)))"

subsection \<open>Floats: IEEE 754 binary64 with round-to-nearest, ties-to-even\<close>

text \<open>
  A Python \<open>float\<close> is a binary64 number. Finite values are carried as the rational they
  denote (the two zeros are identified: \<open>-0.0 == 0.0\<close> in Python, and only the digits
  printed for them differ); the infinities and NaN are separate constructors. Every arithmetic
  result is the exact rational result rounded by \<open>round_double\<close>: significand of 53
  bits, least exponent \<open>-1074\<close> (subnormals), overflow to infinity from \<open>2 ^ 1024\<close> on.
\<close>

datatype pyfloat = Finite rat | PosInf | NegInf | NaN

definition round_half_even :: "rat \<Rightarrow> int" where
  "round_half_even x =
     (let f = \<lfloor>x\<rfloor>; d = x - of_int f
      in if d < 1 / 2 then f else if 1 / 2 < d then f + 1
         else if even f then f else f + 1)"

text \<open>\<open>ilog2 q\<close> is \<open>\<lfloor>log\<^sub>2 q\<rfloor>\<close> for a positive rational, computed from bit lengths.\<close>

definition ilog2 :: "rat \<Rightarrow> int" where
  "ilog2 q =
     (let (a, b) = quotient_of q; d = bitlen a - bitlen b
      in if 2 powi d \<le> q then d else d - 1)"

definition inf_of_sign :: "rat \<Rightarrow> pyfloat" where
  "inf_of_sign s = (if 0 < s then PosInf else NegInf)"

definition DBL_LIMIT :: rat where
  "DBL_LIMIT = 2 ^ 1024"

definition DBL_MAX :: rat where
  "DBL_MAX = (2 ^ 53 - 1) * 2 ^ 971"

definition round_double :: "rat \<Rightarrow> pyfloat" where
  "round_double q =
     (if q = 0 then Finite 0
      else let e = max (ilog2 \<bar>q\<bar> - 52) (- 1074);
               r = of_int (round_half_even (\<bar>q\<bar> / 2 powi e)) * 2 powi e
           in if DBL_LIMIT \<le> r then inf_of_sign q else Finite (sgn q * r))"

text \<open>A decimal literal such as \<open>0.3\<close>, or \<open>float("0.3")\<close> as argparse applies it,
  is the double nearest to the decimal value.\<close>

definition float_lit :: "rat \<Rightarrow> pyfloat" where
  "float_lit q = round_double q"

fun fsgn :: "pyfloat \<Rightarrow> rat" where
  "fsgn (Finite x) = sgn x"
| "fsgn PosInf = 1"
| "fsgn NegInf = - 1"
| "fsgn NaN = 0"

text \<open>\<open>a * b\<close> on floats never raises: NaN propagates, \<open>inf * 0\<close> is NaN.\<close>

definition float_mul :: "pyfloat \<Rightarrow> pyfloat \<Rightarrow> pyfloat" where
  "float_mul a b =
     (if a = NaN \<or> b = NaN then NaN
      else case (a, b) of
             (Finite x, Finite y) \<Rightarrow> round_double (x * y)
           | _ \<Rightarrow> if fsgn a * fsgn b = 0 then NaN else inf_of_sign (fsgn a * fsgn b))"

text \<open>\<open>a / b\<close> on floats raises ZeroDivisionError for a zero divisor, whatever the
  dividend; otherwise it is the IEEE quotient.\<close>

definition float_div :: "pyfloat \<Rightarrow> pyfloat \<Rightarrow> error + pyfloat" where
  "float_div a b =
     (if b = Finite 0 then Inl ZeroDivisionError
      else Inr (if a = NaN \<or> b = NaN then NaN
                else case (a, b) of
                       (Finite x, Finite y) \<Rightarrow> round_double (x / y)
                     | (Finite x, _) \<Rightarrow> Finite 0
                     | (_, Finite y) \<Rightarrow> inf_of_sign (fsgn a * sgn y)
                     | _ \<Rightarrow> NaN))"

text \<open>\<open>int(x)\<close> truncates toward zero; it raises OverflowError on an infinity and
  ValueError on NaN.\<close>

definition trunc :: "rat \<Rightarrow> int" where
  "trunc x = (if 0 \<le> x then \<lfloor>x\<rfloor> else \<lceil>x\<rceil>)"

fun py_int :: "pyfloat \<Rightarrow> error + int" where
  "py_int (Finite x) = Inr (trunc x)"
| "py_int PosInf = Inl OverflowError"
| "py_int NegInf = Inl OverflowError"
| "py_int NaN = Inl ValueError"

text \<open>\<open>k * step\<close> with an \<open>int\<close> on the left converts \<open>k\<close> to the nearest double first
  (OverflowError when it is too large) and multiplies as floats.\<close>

definition float_of_int :: "int \<Rightarrow> error + pyfloat" where
  "float_of_int k =
     (case round_double (of_int k) of Finite x \<Rightarrow> Inr (Finite x) | _ \<Rightarrow> Inl OverflowError)"

definition int_mul_float :: "int \<Rightarrow> pyfloat \<Rightarrow> error + pyfloat" where
  "int_mul_float x step = ebind (float_of_int x) (\<lambda>f. Inr (float_mul f step))"

section \<open>The range expander\<close>

text \<open>
  \<^verbatim>\<open>def float_range(start:float, stop:float, step:float):
    "inclusive range from <start> to <stop> in <step>"
    return [x * step for x in range(int(start/step), int(stop/step)+1)]\<close>

  \<open>range(lo, hi + 1)\<close> is the integer interval \<open>[lo..hi]\<close>, empty when \<open>hi < lo\<close>.
\<close>

definition float_range :: "pyfloat \<Rightarrow> pyfloat \<Rightarrow> pyfloat \<Rightarrow> error + pyfloat list" where
  "float_range start stop step =
     ebind (float_div start step) (\<lambda>a. ebind (py_int a) (\<lambda>lo.
     ebind (float_div stop step) (\<lambda>b. ebind (py_int b) (\<lambda>hi.
       emap (\<lambda>x. int_mul_float x step) [lo..hi]))))"

section \<open>The parameter space builder\<close>

text \<open>
  \<open>itertools.product(*pools)\<close>, as the library documents it:
  \<^verbatim>\<open>result = [[]]
for pool in pools:
    result = [x+[y] for x in result for y in pool]\<close>
  The generator is modelled by the list of the tuples it yields, in order.
\<close>

definition itertools_product :: "'a list list \<Rightarrow> 'a list list" where
  "itertools_product pools =
     foldl (\<lambda>result pool. concat (map (\<lambda>x. map (\<lambda>y. x @ [y]) pool) result)) [[]] pools"

text \<open>
  The argparse Namespace built by \<open>make_parser_for_main\<close> holds, per parameter of the
  target in declaration order, the three values given as START STOP DELTA.
  \<^verbatim>\<open>def yield_parameter_space(args:Namespace):
    compressed_space = vars(args).values()
    space = []
    for cs in compressed_space:
        space.append(float_range(*cs))
    return product(*space)\<close>
\<close>

type_synonym namespace = "(string \<times> pyfloat \<times> pyfloat \<times> pyfloat) list"

definition yield_parameter_space :: "namespace \<Rightarrow> error + pyfloat list list" where
  "yield_parameter_space args =
     ebind (emap (\<lambda>(name, start, stop, step). float_range start stop step) args)
       (\<lambda>space. Inr (itertools_product space))"

section \<open>Exit codes and attribute lookup\<close>

text \<open>
  \<^verbatim>\<open>class EXIT(Enum):
    OK = 0
    NO_MODULE_NAMED_Y = 1
    NO_MAIN_IN_MODULE = 2
    WRITE_IN_THREAD_FAILED = 7\<close>
  \<open>EXIT.<name>\<close> is an attribute lookup on the class: a name that is not a member
  raises AttributeError. Likewise \<open>e.msg\<close> on an exception object: ImportError carries
  a \<open>msg\<close> attribute, OSError (alias IOError) and the others do not.
\<close>

datatype EXIT = OK | NO_MODULE_NAMED_Y | NO_MAIN_IN_MODULE | WRITE_IN_THREAD_FAILED

fun EXIT_value :: "EXIT \<Rightarrow> int" where
  "EXIT_value OK = 0"
| "EXIT_value NO_MODULE_NAMED_Y = 1"
| "EXIT_value NO_MAIN_IN_MODULE = 2"
| "EXIT_value WRITE_IN_THREAD_FAILED = 7"

definition EXIT_getattr :: "string \<Rightarrow> error + EXIT" where
  "EXIT_getattr name =
     (if name = ''OK'' then Inr OK
      else if name = ''NO_MODULE_NAMED_Y'' then Inr NO_MODULE_NAMED_Y
      else if name = ''NO_MAIN_IN_MODULE'' then Inr NO_MAIN_IN_MODULE
      else if name = ''WRITE_IN_THREAD_FAILED'' then Inr WRITE_IN_THREAD_FAILED
      else Inl (AttributeError name))"

fun getattr_msg :: "error \<Rightarrow> error + string" where
  "getattr_msg (ImportError m) = Inr m"
| "getattr_msg e = Inl (AttributeError ''msg'')"

section \<open>The environment of a run\<close>

text \<open>
  Everything \<open>main\<close> obtains from outside is a field of \<open>env\<close>: the module that
  \<open>importlib.import_module\<close> finds (or the exception it raises), what
  \<open>parse_known_args\<close> makes of the command line for the generated parser, whether
  \<open>out.swp\<close> exists, whether opening it fails, \<open>os.cpu_count()\<close> (which may be
  \<open>None\<close>), and for the \<open>k\<close>-th call of \<open>fp.write\<close> whether it raises
  \<open>OSError(errno, strerror)\<close>. The two pools run tasks in an order the program does not
  control: \<open>done_order\<close> lists the submitted futures in the order their callbacks run,
  \<open>write_order\<close> lists the submitted save tasks in the order they write. Theorems
  quantify over both. \<open>format6\<close> is the language's \<open>format(x, ".6")\<close> on floats (six
  significant digits); no statement below depends on the digits it produces.
  \<open>runtime3\<close> is the formatted elapsed process time.

  A target function is its annotations and its behaviour on a tuple of arguments:
  a float result, or the text of the exception it raises.
\<close>

record pymain =
  annotations :: "(string \<times> string) list"
  call :: "pyfloat list \<Rightarrow> string + pyfloat"

record pymodule =
  mod_name :: string
  mod_main :: "pymain option"

record env =
  import_module :: "string \<Rightarrow> error + pymodule"
  parse_known_args :: "string list \<Rightarrow> error + namespace"
  swp_exists :: bool
  open_error :: "error option"
  cpu_count :: "nat option"
  write_fault :: "nat \<Rightarrow> (int \<times> string) option"
  done_order :: "nat list"
  write_order :: "nat list"
  format6 :: "pyfloat \<Rightarrow> string"
  runtime3 :: string

text \<open>The part of the world that a run changes: the lines appended to \<open>out.swp\<close>
  since it was opened, the number of \<open>fp.write\<close> calls made, and standard output.
  A call of \<open>fp.write\<close> appends its line as a whole or fails without appending.\<close>

record world =
  out_swp :: "string list"
  writes :: nat
  stdout :: "string list"

definition print :: "string \<Rightarrow> world \<Rightarrow> world" where
  "print s w = w\<lparr>stdout := stdout w @ [s]\<rparr>"

definition fp_write :: "env \<Rightarrow> string \<Rightarrow> world \<Rightarrow> (error + unit) \<times> world" where
  "fp_write env line w =
     (case write_fault env (writes w) of
        None \<Rightarrow> (Inr (), w\<lparr>out_swp := out_swp w @ [line], writes := Suc (writes w)\<rparr>)
      | Some (errno, strerror) \<Rightarrow> (Inl (OSError errno strerror), w\<lparr>writes := Suc (writes w)\<rparr>))"

text \<open>A schedule lists positions of a task list; a position that names no task is
  skipped. A schedule that is a permutation of the positions runs every task once.\<close>

definition reorder :: "nat list \<Rightarrow> 'a list \<Rightarrow> 'a list" where
  "reorder sched xs = map (\<lambda>i. xs ! i) (filter (\<lambda>i. i < length xs) sched)"

section \<open>The result sink\<close>

text \<open>
  \<^verbatim>\<open>def save(state:tuple, result:typing.Any, fp:typing.TextIO):
    line = " ".join([f"{p:.6}" for p in state]) + f" {result:.6}\n"
    try:
        fp.write(line)
    except IOError as e:
        print(e.msg)
        print("Thread failed to write... ")
        return EXIT.WRITE_IN_THREAD_FAILED\<close>
  A call that falls off the end returns \<open>None\<close>.
\<close>

fun str_join :: "string \<Rightarrow> string list \<Rightarrow> string" where
  "str_join sep [] = []"
| "str_join sep [x] = x"
| "str_join sep (x # y # ys) = x @ sep @ str_join sep (y # ys)"

definition format_line :: "(pyfloat \<Rightarrow> string) \<Rightarrow> pyfloat list \<Rightarrow> pyfloat \<Rightarrow> string" where
  "format_line fmt state result =
     str_join '' '' (map fmt state) @ '' '' @ fmt result @ [CHR 0x0A]"

definition save :: "env \<Rightarrow> pyfloat list \<Rightarrow> pyfloat \<Rightarrow> world \<Rightarrow> (error + EXIT option) \<times> world" where
  "save env state result w =
     (let line = format_line (format6 env) state result
      in case fp_write env line w of
           (Inr _, w1) \<Rightarrow> (Inr None, w1)
         | (Inl (OSError errno strerror), w1) \<Rightarrow>
             (case getattr_msg (OSError errno strerror) of
                Inl e \<Rightarrow> (Inl e, w1)
              | Inr m \<Rightarrow>
                  (let w2 = print m w1; w3 = print ''Thread failed to write... '' w2
                   in (case EXIT_getattr ''WRITE_IN_THREAD_FAILED'' of
                         Inl e \<Rightarrow> (Inl e, w3) | Inr c \<Rightarrow> (Inr (Some c), w3))))
         | (Inl e, w1) \<Rightarrow> (Inl e, w1))"

text \<open>
  \<^verbatim>\<open>def save_on_complete(future:Future, state:tuple, thread_pool:ThreadPoolExecutor, fp:typing.TextIO):
    result = future.result()
    thread_pool.submit(save, state, result, fp)\<close>
  \<open>future.result()\<close> re-raises the exception of a failed invocation. The thread pool
  is its queue of submitted save tasks. A done-callback that raises is logged by
  \<open>concurrent.futures\<close> and otherwise ignored (\<open>invoke_callback\<close>).
\<close>

type_synonym save_task = "pyfloat list \<times> pyfloat"

definition save_on_complete ::
  "string + pyfloat \<Rightarrow> pyfloat list \<Rightarrow> save_task list \<Rightarrow> error + save_task list" where
  "save_on_complete future state thread_pool =
     (case future of
        Inl exc \<Rightarrow> Inl (Raised exc)
      | Inr result \<Rightarrow> Inr (thread_pool @ [(state, result)]))"

definition invoke_callback ::
  "save_task list \<Rightarrow> pyfloat list \<times> (string + pyfloat) \<Rightarrow> save_task list" where
  "invoke_callback thread_pool sf =
     (case save_on_complete (snd sf) (fst sf) thread_pool of
        Inl e \<Rightarrow> thread_pool | Inr q \<Rightarrow> q)"

text \<open>A save task run by the thread pool: what it returns or raises stays in a future
  that nobody reads, so only its effect on the world remains.\<close>

definition run_save :: "env \<Rightarrow> world \<Rightarrow> save_task \<Rightarrow> world" where
  "run_save env w t = snd (save env (fst t) (snd t) w)"

section \<open>The study orchestrator\<close>

text \<open>
  \<^verbatim>\<open>def make_parser_for_main(module):
    parser = ArgumentParser(...)
    params = module.main.__annotations__.copy()
    rtype  = None
    if "return" in params:
        rtype = params.pop("return")
    for arg, dtype in params.items():
        parser.add_argument(f"--{arg}", nargs=3, type=dtype, ..., required=True)
    return parser, rtype\<close>
  The parser is the list of the argument names it requires.
\<close>

definition make_parser_for_main :: "pymain \<Rightarrow> string list \<times> string option" where
  "make_parser_for_main m =
     (map fst (filter (\<lambda>(arg, dtype). arg \<noteq> ''return'') (annotations m)),
      map_of (annotations m) ''return'')"

text \<open>
  \<open>cores = os.cpu_count()-1\<close>; \<open>None - 1\<close> raises TypeError.
  \<open>ProcessPoolExecutor(max_workers=cores)\<close> raises ValueError unless
  \<open>max_workers > 0\<close> (the POSIX behaviour; Windows also refuses more than 61).
\<close>

definition cores_of :: "nat option \<Rightarrow> error + int" where
  "cores_of c = (case c of None \<Rightarrow> Inl TypeError | Some n \<Rightarrow> Inr (int n - 1))"

definition ProcessPoolExecutor :: "int \<Rightarrow> error + int" where
  "ProcessPoolExecutor max_workers =
     (if max_workers \<le> 0 then Inl ValueError else Inr max_workers)"

text \<open>
  The outcome of \<open>main\<close>: the value it returns or the exception that leaves it, the
  world after it, the value of \<open>cores\<close> if the run got that far, and the tuples
  submitted to the process pool.
\<close>

record outcome =
  status :: "error + EXIT"
  final :: world
  cores :: "int option"
  submitted :: "pyfloat list list"

definition finish :: "error + EXIT \<Rightarrow> world \<Rightarrow> int option \<Rightarrow> pyfloat list list \<Rightarrow> outcome" where
  "finish st w c sub = \<lparr>status = st, final = w, cores = c, submitted = sub\<rparr>"

text \<open>
  The body of the \<open>with ProcessPoolExecutor(...)\<close> block and the shutdown of the
  thread pool. Every tuple is submitted; leaving the block waits for all futures, whose
  callbacks have then run (in \<open>done_order\<close>); \<open>thread_pool.shutdown(wait=True)\<close> waits
  for the save tasks (run in \<open>write_order\<close>).
\<close>

definition drain :: "env \<Rightarrow> pymain \<Rightarrow> pyfloat list list \<Rightarrow> world \<Rightarrow> world" where
  "drain env f states w =
     (let futures = map (\<lambda>state. (state, call f state)) states;
          thread_pool = foldl invoke_callback [] (reorder (done_order env) futures)
      in foldl (run_save env) w (reorder (write_order env) thread_pool))"

text \<open>
  \<^verbatim>\<open>def main(args:Namespace):
    try:
        ...
        module = importlib.import_module(args.script)
        ...
    except ImportError as e:
        print(e.msg)
        print("did you prehaps add .py at the end of the filename?")
        return EXIT.NO_MODULE_NAMED_Y
    assert module
    if not hasattr(module, "main"):
        print(f"no main function found in {module.__name__}")
        return EXIT.NO_MAIN
    parser, rtype = make_parser_for_main(module)
    args, _ = parser.parse_known_args()
    if os.path.exists("out.swp"):
        print("resetting swap file...")
        os.remove("out.swp")
    fp = open("out.swp", "a")
    cores = os.cpu_count()-1
    t0 = time.process_time()
    thread_pool = ThreadPoolExecutor(max_workers=16)
    with ProcessPoolExecutor(max_workers=cores) as exe:
        futures = []
        print("starting task submission")
        for state in yield_parameter_space(args):
            future = exe.submit(module.main, *state)
            future.add_done_callback(partial(save_on_complete, state=state,
                                             thread_pool=thread_pool, fp=fp))
            futures.append(future)
    thread_pool.shutdown(wait=True)
    fp.close()
    print(f"Runtime: {time.process_time()-t0:.3}s")
    print("All tasks done, file closed succesfully")
    return EXIT.OK\<close>
  An exception that leaves \<open>main\<close> is the \<open>Inl\<close> status. A module object is
  truthy, so \<open>assert module\<close> never fails; \<open>os.getcwd\<close>, the \<open>sys.path\<close>
  bookkeeping, \<open>os.remove\<close> and \<open>fp.close\<close> are taken to succeed.
\<close>

definition returning :: "string \<Rightarrow> world \<Rightarrow> int option \<Rightarrow> pyfloat list list \<Rightarrow> outcome" where
  "returning name w c sub = finish (EXIT_getattr name) w c sub"

definition main :: "env \<Rightarrow> string \<Rightarrow> outcome" where
  "main env script =
     (let w0 = \<lparr>out_swp = [], writes = 0, stdout = []\<rparr>
      in case import_module env script of
           Inl (ImportError m) \<Rightarrow>
             (case getattr_msg (ImportError m) of
                Inl e \<Rightarrow> finish (Inl e) w0 None []
              | Inr msg \<Rightarrow>
                  returning ''NO_MODULE_NAMED_Y''
                    (print ''did you prehaps add .py at the end of the filename?'' (print msg w0))
                    None [])
         | Inl e \<Rightarrow> finish (Inl e) w0 None []
         | Inr modl \<Rightarrow>
             (case mod_main modl of
                None \<Rightarrow>
                  returning ''NO_MAIN''
                    (print (''no main function found in '' @ mod_name modl) w0) None []
              | Some f \<Rightarrow>
                  (case parse_known_args env (fst (make_parser_for_main f)) of
                     Inl e \<Rightarrow> finish (Inl e) w0 None []
                   | Inr args \<Rightarrow>
                       (let w1 = (if swp_exists env then print ''resetting swap file...'' w0 else w0)
                        in case open_error env of
                             Some e \<Rightarrow> finish (Inl e) w1 None []
                           | None \<Rightarrow>
                               (case cores_of (cpu_count env) of
                                  Inl e \<Rightarrow> finish (Inl e) w1 None []
                                | Inr c \<Rightarrow>
                                    (case ProcessPoolExecutor c of
                                       Inl e \<Rightarrow> finish (Inl e) w1 (Some c) []
                                     | Inr exe \<Rightarrow>
                                         (let w2 = print ''starting task submission'' w1
                                          in case yield_parameter_space args of
                                               Inl e \<Rightarrow> finish (Inl e) w2 (Some c) []
                                             | Inr states \<Rightarrow>
                                                 (let w3 = drain env f states w2;
                                                      w4 = print (''Runtime: '' @ runtime3 env @ ''s'') w3;
                                                      w5 = print ''All tasks done, file closed succesfully'' w4
                                                  in returning ''OK'' w5 (Some c) states))))))))"

section \<open>An example study\<close>

text \<open>
  The end-to-end scenario: a module \<open>study\<close> whose \<open>main(a: float) -> float\<close>
  returns \<open>a * 2\<close>, studied on the axis \<open>a: (0, 2, 1)\<close> on a machine with 4
  processing units. \<open>failing_target\<close> is the same function except that it raises at
  \<open>a = 1\<close>. \<open>example_format6\<close> agrees with \<open>format(x, ".6")\<close> on \<open>0.0\<close>, \<open>1.0\<close>,
  \<open>2.0\<close> and \<open>4.0\<close>, the only floats formatted in these runs. The variants change one
  field each: a schedule for two save tasks, a disk that refuses the second write, a
  module without \<open>main\<close>, a machine with a single processing unit.
\<close>

definition example_format6 :: "pyfloat \<Rightarrow> string" where
  "example_format6 x =
     (if x = Finite 0 then ''0.0'' else if x = Finite 1 then ''1.0''
      else if x = Finite 2 then ''2.0'' else if x = Finite 4 then ''4.0'' else ''?'')"

definition double_target :: "pyfloat list \<Rightarrow> string + pyfloat" where
  "double_target state =
     (case state of [a] \<Rightarrow> Inr (float_mul a (float_lit 2)) | _ \<Rightarrow> Inl ''TypeError'')"


definition example_module :: "(pyfloat list \<Rightarrow> string + pyfloat) \<Rightarrow> pymodule" where
  "example_module t =
     \<lparr>mod_name = ''study'',
      mod_main = Some \<lparr>annotations = [(''a'', ''float''), (''return'', ''float'')], call = t\<rparr>\<rparr>"

definition example_env :: "pymodule \<Rightarrow> env" where
  "example_env m =
     \<lparr>import_module = (\<lambda>name. if name = ''study'' then Inr m
                              else Inl (ImportError (''No module named '' @ name))),
      parse_known_args = (\<lambda>names. if names = [''a'']
                                 then Inr [(''a'', float_lit 0, float_lit 2, float_lit 1)]
                                 else Inl (SystemExit 2)),
      swp_exists = False, open_error = None, cpu_count = Some 4,
      write_fault = (\<lambda>k. None),
      done_order = [2, 0, 1], write_order = [1, 0, 2],
      format6 = example_format6, runtime3 = ''0.01''\<rparr>"


definition faulty_disk_env :: env where
  "faulty_disk_env = (example_env (example_module double_target))
     \<lparr>write_fault := (\<lambda>k. if k = 1 then Some (28, ''No space left on device'') else None)\<rparr>"

definition no_main_env :: env where
  "no_main_env = example_env \<lparr>mod_name = ''study'', mod_main = None\<rparr>"

definition single_core_env :: env where
  "single_core_env = (example_env (example_module double_target))\<lparr>cpu_count := Some 1\<rparr>"

section \<open>Facts about rounding\<close>

lemma two_powi_pos: "0 < (2::rat) powi e"
  by (simp add: power_int_def)

lemma two_powi_add: "(2::rat) powi (a + b) = 2 powi a * 2 powi b"
  by (simp add: power_int_add)

lemma two_powi_mono: "a \<le> b \<Longrightarrow> (2::rat) powi a \<le> 2 powi b"
  by (rule power_int_increasing) simp_all

lemma two_powi_strict_mono: "a < b \<Longrightarrow> (2::rat) powi a < 2 powi b"
  by (rule power_int_strict_increasing) simp_all

lemma round_half_even_of_int: "round_half_even (of_int m) = m"
  by (simp add: round_half_even_def)

lemma round_half_even_near:
  assumes "\<bar>x - of_int m\<bar> < 1 / 2"
  shows "round_half_even x = m"
proof -
  have lo: "of_int m - 1 / 2 < x" and hi: "x < of_int m + 1 / 2"
    using assms by linarith+
  have fl: "\<lfloor>x\<rfloor> = m \<or> \<lfloor>x\<rfloor> = m - 1"
    using lo hi by (auto simp: floor_eq_iff)
  show ?thesis
  proof (rule disjE [OF fl])
    assume f: "\<lfloor>x\<rfloor> = m"
    have "x - of_int m < 1 / 2" using hi by linarith
    with f show ?thesis
      by (simp add: round_half_even_def Let_def)
  next
    assume f: "\<lfloor>x\<rfloor> = m - 1"
    have "1 / 2 < x - of_int (m - 1)" using lo by simp
    with f show ?thesis
      by (simp add: round_half_even_def Let_def)
  qed
qed

lemma round_half_even_bounds:
  "x - 1 / 2 \<le> of_int (round_half_even x) \<and> of_int (round_half_even x) \<le> x + 1 / 2"
  unfolding round_half_even_def Let_def
  by (auto simp: not_less) linarith+

lemma round_half_even_le:
  assumes "x \<le> of_int n"
  shows "round_half_even x \<le> n"
proof -
  have le: "\<lfloor>x\<rfloor> \<le> n" using assms by (simp add: floor_le_iff)
  show ?thesis
  proof (cases "\<lfloor>x\<rfloor> = n")
    case True
    then have "x = of_int n"
      using assms by (metis floor_correct order_antisym)
    then show ?thesis by (simp add: round_half_even_of_int)
  next
    case False
    with le have "\<lfloor>x\<rfloor> + 1 \<le> n" by simp
    then show ?thesis
      unfolding round_half_even_def Let_def by auto
  qed
qed

lemma round_half_even_nonneg: "0 \<le> x \<Longrightarrow> 0 \<le> round_half_even x"
  unfolding round_half_even_def Let_def by auto

lemma ilog2_bounds:
  assumes "0 < q"
  shows "2 powi (ilog2 q) \<le> q \<and> q < 2 powi (ilog2 q + 1)"
proof -
  obtain a b where ab: "quotient_of q = (a, b)" by (cases "quotient_of q")
  then have b: "0 < b" and q: "q = of_int a / of_int b"
    by (simp_all add: quotient_of_denom_pos quotient_of_div)
  with assms have a: "0 < a" by (simp add: zero_less_divide_iff)
  define la lb where "la = bitlen a" and "lb = bitlen b"
  have bl: "1 \<le> bitlen k \<and> (2::rat) powi (bitlen k - 1) \<le> of_int k \<and> of_int k < (2::rat) powi bitlen k"
    if "0 < k" for k
  proof -
    from that have ge: "1 \<le> bitlen k" by (auto simp: bitlen_alt_def)
    from bitlen_bounds [OF that]
    have "(2::int) ^ nat (bitlen k - 1) \<le> k" and "k < (2::int) ^ nat (bitlen k)" by simp_all
    then have "(of_int ((2::int) ^ nat (bitlen k - 1)) :: rat) \<le> of_int k"
      and "(of_int k :: rat) < of_int ((2::int) ^ nat (bitlen k))"
      by (simp_all only: of_int_le_iff of_int_less_iff)
    with ge show ?thesis by (simp add: power_int_nonneg_exp)
  qed
  have la: "1 \<le> la" "(2::rat) powi (la - 1) \<le> of_int a" "of_int a < (2::rat) powi la"
   and lb: "1 \<le> lb" "(2::rat) powi (lb - 1) \<le> of_int b" "of_int b < (2::rat) powi lb"
    using bl [OF a] bl [OF b] by (simp_all add: la_def lb_def)
  have bpos: "(0::rat) < of_int b" using b by simp
  have il: "ilog2 q = (if 2 powi (la - lb) \<le> q then la - lb else la - lb - 1)"
    by (simp add: ilog2_def ab la_def lb_def Let_def)
  have up: "q < 2 powi (la - lb + 1)"
  proof -
    have "of_int a * 2 powi (lb - 1) < 2 powi la * (of_int b :: rat)"
      using la(3) lb(2) bpos two_powi_pos [of "lb - 1"]
      by (meson mult_strict_mono' less_imp_le of_int_0_le_iff a less_imp_le two_powi_pos mult_less_le_imp_less)
    moreover have "(2::rat) powi la = 2 powi (la - lb + 1) * 2 powi (lb - 1)"
      by (simp add: two_powi_add [symmetric])
    ultimately have "of_int a < 2 powi (la - lb + 1) * (of_int b :: rat)"
      using two_powi_pos [of "lb - 1"] by (simp add: mult.assoc mult.commute mult.left_commute)
    then show ?thesis using bpos by (simp add: q pos_divide_less_eq)
  qed
  have low: "2 powi (la - lb - 1) < q"
  proof -
    have "2 powi (la - 1) * (of_int b :: rat) < of_int a * 2 powi lb"
      using la(2) lb(3) bpos a
      by (meson mult_le_less_imp_less two_powi_pos of_int_0_less_iff less_imp_le)
    moreover have "(2::rat) powi (la - 1) = 2 powi (la - lb - 1) * 2 powi lb"
      by (simp add: two_powi_add [symmetric])
    ultimately have "2 powi (la - lb - 1) * (of_int b :: rat) < of_int a"
      using two_powi_pos [of "lb"] by (simp add: mult.assoc mult.commute mult.left_commute)
    then show ?thesis using bpos by (simp add: q pos_less_divide_eq)
  qed
  show ?thesis
    using up low by (auto simp: il not_le)
qed

lemma ilog2_unique:
  assumes "0 < q" "2 powi d \<le> q" "q < 2 powi (d + 1)"
  shows "ilog2 q = d"
proof -
  from ilog2_bounds [OF assms(1)]
  have b: "2 powi (ilog2 q) \<le> q" "q < 2 powi (ilog2 q + 1)" by simp_all
  have "\<not> ilog2 q + 1 \<le> d"
    using two_powi_mono [of "ilog2 q + 1" d] b(2) assms(2) by auto
  moreover have "\<not> d + 1 \<le> ilog2 q"
    using two_powi_mono [of "d + 1" "ilog2 q"] b(1) assms(3) by auto
  ultimately show ?thesis by simp
qed



lemma quot_less:
  assumes "q \<noteq> 0"
  shows "\<bar>q\<bar> / 2 powi (max (ilog2 \<bar>q\<bar> - 52) (- 1074)) < 2 ^ 53"
proof -
  define e where "e = max (ilog2 \<bar>q\<bar> - 52) (- 1074)"
  have "\<bar>q\<bar> < 2 powi (ilog2 \<bar>q\<bar> + 1)"
    using ilog2_bounds [of "\<bar>q\<bar>"] assms by simp
  also have "\<dots> \<le> 2 powi (e + 53)"
    by (rule two_powi_mono) (simp add: e_def)
  also have "\<dots> = 2 ^ 53 * 2 powi e"
    by (simp add: two_powi_add)
  finally show ?thesis
    using two_powi_pos [of e] by (simp add: e_def pos_divide_less_eq)
qed

lemma round_double_cases:
  assumes "q \<noteq> 0"
  obtains e m where "e = max (ilog2 \<bar>q\<bar> - 52) (- 1074)"
    and "m = round_half_even (\<bar>q\<bar> / 2 powi e)"
    and "0 \<le> m" and "m \<le> 2 ^ 53"
    and "round_double q =
           (if DBL_LIMIT \<le> of_int m * 2 powi e then inf_of_sign q
            else Finite (sgn q * (of_int m * 2 powi e)))"
proof -
  define e where "e = max (ilog2 \<bar>q\<bar> - 52) (- 1074)"
  define m where "m = round_half_even (\<bar>q\<bar> / 2 powi e)"
  have "0 \<le> \<bar>q\<bar> / 2 powi e" using two_powi_pos [of e] by simp
  then have m0: "0 \<le> m" unfolding m_def by (rule round_half_even_nonneg)
  have "\<bar>q\<bar> / 2 powi e \<le> of_int (2 ^ 53)"
    using quot_less [OF assms] by (simp add: e_def)
  then have m1: "m \<le> 2 ^ 53" unfolding m_def by (rule round_half_even_le)
  have "round_double q =
           (if DBL_LIMIT \<le> of_int m * 2 powi e then inf_of_sign q
            else Finite (sgn q * (of_int m * 2 powi e)))"
    using assms by (simp add: round_double_def Let_def e_def m_def)
  with m0 m1 show ?thesis using that [of e m] e_def m_def by blast
qed


lemma DBL_MAX_less_LIMIT: "DBL_MAX < DBL_LIMIT"
  by (simp add: DBL_MAX_def DBL_LIMIT_def)

lemma DBL_LIMIT_split: "DBL_LIMIT = 2 ^ 53 * 2 powi 971"
  by (simp add: DBL_LIMIT_def)

lemma DBL_MAX_split: "DBL_MAX = (2 ^ 53 - 1) * 2 powi 971"
  by (simp add: DBL_MAX_def)

lemma low_binade_le_MAX:
  assumes "m \<le> 2 ^ 53" "0 \<le> m" "e \<le> 970"
  shows "of_int m * 2 powi e \<le> DBL_MAX" "of_int m * 2 powi e < DBL_LIMIT"
proof -
  have "(of_int m :: rat) \<le> 2 ^ 53"
    using assms(1) by (metis of_int_le_iff of_int_numeral of_int_power)
  moreover have "(2::rat) powi e \<le> 2 powi 970"
    using assms(3) by (rule two_powi_mono)
  ultimately have "of_int m * 2 powi e \<le> 2 ^ 53 * (2::rat) powi 970"
    using assms(2) two_powi_pos [of e] by (intro mult_mono) simp_all
  moreover have "2 ^ 53 * (2::rat) powi 970 \<le> DBL_MAX"
    by (simp add: DBL_MAX_def)
  ultimately show "of_int m * 2 powi e \<le> DBL_MAX" by simp
  then show "of_int m * 2 powi e < DBL_LIMIT"
    using DBL_MAX_less_LIMIT by simp
qed

lemma round_double_Finite_bound:
  assumes "round_double q = Finite r"
  shows "\<bar>r\<bar> \<le> DBL_MAX"
proof (cases "q = 0")
  case True
  with assms show ?thesis by (simp add: round_double_def DBL_MAX_def)
next
  case False
  then obtain e m where e: "e = max (ilog2 \<bar>q\<bar> - 52) (- 1074)"
    and m: "0 \<le> m" "m \<le> 2 ^ 53"
    and rd: "round_double q =
           (if DBL_LIMIT \<le> of_int m * 2 powi e then inf_of_sign q
            else Finite (sgn q * (of_int m * 2 powi e)))"
    by (rule round_double_cases)
  from rd assms have lt: "of_int m * 2 powi e < DBL_LIMIT"
    and r: "r = sgn q * (of_int m * 2 powi e)"
    by (auto simp: inf_of_sign_def split: if_splits)
  have abs: "\<bar>r\<bar> = of_int m * 2 powi e"
    using False m(1) two_powi_pos [of e] by (simp add: r abs_mult abs_sgn_eq)
  show ?thesis
  proof (cases "e \<le> 970")
    case True
    with m show ?thesis by (simp add: abs low_binade_le_MAX)
  next
    case False
    define n where "n = nat (e - 971)"
    have pe: "(2::rat) powi e = 2 ^ n * 2 powi 971"
    proof -
      have "e = int n + 971" using False by (simp add: n_def)
      then show ?thesis by (simp only: two_powi_add power_int_of_nat)
    qed
    have "of_int (m * 2 ^ n) * (2::rat) powi 971 < of_int (2 ^ 53) * 2 powi 971"
      using lt by (simp add: pe DBL_LIMIT_split mult.assoc)
    then have "(of_int (m * 2 ^ n) :: rat) < of_int (2 ^ 53)"
      using two_powi_pos [of 971] by (simp only: mult_less_cancel_right_pos)
    then have "m * 2 ^ n < 2 ^ 53" by (simp only: of_int_less_iff)
    then have "m * 2 ^ n \<le> 2 ^ 53 - 1" by simp
    then have "(of_int (m * 2 ^ n) :: rat) \<le> of_int (2 ^ 53 - 1)"
      by (simp only: of_int_le_iff)
    then have "of_int (m * 2 ^ n) * (2::rat) powi 971 \<le> of_int (2 ^ 53 - 1) * 2 powi 971"
      using two_powi_pos [of 971] by (simp only: mult_le_cancel_right_pos)
    then show ?thesis
      by (simp add: abs pe DBL_MAX_split mult.assoc)
  qed
qed

lemma round_double_Finite:
  assumes "\<bar>q\<bar> \<le> DBL_MAX"
  shows "\<exists>r. round_double q = Finite r"
proof (cases "q = 0")
  case True
  then show ?thesis by (simp add: round_double_def)
next
  case False
  then obtain e m where e: "e = max (ilog2 \<bar>q\<bar> - 52) (- 1074)"
    and m: "m = round_half_even (\<bar>q\<bar> / 2 powi e)" "0 \<le> m" "m \<le> 2 ^ 53"
    and rd: "round_double q =
           (if DBL_LIMIT \<le> of_int m * 2 powi e then inf_of_sign q
            else Finite (sgn q * (of_int m * 2 powi e)))"
    by (rule round_double_cases)
  have "2 powi (ilog2 \<bar>q\<bar>) \<le> \<bar>q\<bar>"
    using ilog2_bounds [of "\<bar>q\<bar>"] False by simp
  also have "\<dots> < 2 powi 1024"
    using assms DBL_MAX_less_LIMIT by (simp add: DBL_LIMIT_def)
  finally have "ilog2 \<bar>q\<bar> < 1024"
    using two_powi_mono [of 1024 "ilog2 \<bar>q\<bar>"] by (auto simp: not_le [symmetric] simp del: power_int_numeral)
  then have e971: "e \<le> 971" by (simp add: e)
  have "of_int m * 2 powi e < DBL_LIMIT"
  proof (cases "e = 971")
    case True
    have "\<bar>q\<bar> / 2 powi e \<le> of_int (2 ^ 53 - 1)"
      using assms by (simp add: True DBL_MAX_split pos_divide_le_eq two_powi_pos)
    then have "m \<le> 2 ^ 53 - 1"
      unfolding m(1) by (rule round_half_even_le)
    then have "(of_int m :: rat) \<le> of_int (2 ^ 53 - 1)"
      by (simp only: of_int_le_iff)
    then have "of_int m * (2::rat) powi 971 \<le> of_int (2 ^ 53 - 1) * 2 powi 971"
      using two_powi_pos [of 971] by (simp only: mult_le_cancel_right_pos)
    then have "of_int m * (2::rat) powi 971 \<le> DBL_MAX"
      by (simp add: DBL_MAX_split)
    then show ?thesis using DBL_MAX_less_LIMIT by (simp add: True)
  next
    case False
    with e971 have "e \<le> 970" by simp
    with m show ?thesis by (simp add: low_binade_le_MAX)
  qed
  with rd show ?thesis by simp
qed


lemma round_half_even_tie:
  assumes "x = of_int m + 1 / 2"
  shows "round_half_even x = (if even m then m else m + 1)"
proof -
  have "\<lfloor>x\<rfloor> = m" using assms by (simp add: floor_eq_iff)
  then show ?thesis using assms by (simp add: round_half_even_def Let_def)
qed

lemma round_double_exact:
  assumes q: "q = of_int m * 2 powi e" and m: "\<bar>m\<bar> < 2 ^ 53"
    and e: "- 1074 \<le> e" "e \<le> 971"
  shows "round_double q = Finite q"
proof (cases "q = 0")
  case True
  then show ?thesis by (simp add: round_double_def)
next
  case False
  define ex where "ex = max (ilog2 \<bar>q\<bar> - 52) (- 1074)"
  have aq: "\<bar>q\<bar> = of_int \<bar>m\<bar> * 2 powi e"
    using two_powi_pos [of e] by (simp add: q abs_mult)
  have mb: "(of_int \<bar>m\<bar> :: rat) < 2 ^ 53"
    using m by (metis of_int_less_iff of_int_numeral of_int_power)
  have "2 powi (ilog2 \<bar>q\<bar>) \<le> \<bar>q\<bar>"
    using ilog2_bounds [of "\<bar>q\<bar>"] False by simp
  also have "\<dots> < 2 ^ 53 * 2 powi e"
    using mb two_powi_pos [of e] by (simp add: aq)
  also have "\<dots> = 2 powi (e + 53)" by (simp add: two_powi_add)
  finally have "ilog2 \<bar>q\<bar> < e + 53"
    using two_powi_mono [of "e + 53" "ilog2 \<bar>q\<bar>"] by (auto simp: not_le [symmetric])
  with e(1) have le: "ex \<le> e" by (simp add: ex_def)
  define n where "n = nat (e - ex)"
  have pe: "(2::rat) powi e = 2 ^ n * 2 powi ex"
  proof -
    have "e = int n + ex" using le by (simp add: n_def)
    then show ?thesis by (simp only: two_powi_add power_int_of_nat)
  qed
  have "\<bar>q\<bar> / 2 powi ex = of_int (\<bar>m\<bar> * 2 ^ n)"
    using two_powi_pos [of ex] by (simp add: aq pe)
  then have rhe: "round_half_even (\<bar>q\<bar> / 2 powi ex) = \<bar>m\<bar> * 2 ^ n"
    by (simp only: round_half_even_of_int)
  have bk: "of_int (\<bar>m\<bar> * 2 ^ n) * 2 powi ex = \<bar>q\<bar>"
    by (simp add: aq pe)
  have "\<bar>q\<bar> < 2 ^ 53 * 2 powi 971"
    using mb two_powi_pos [of e] two_powi_mono [OF e(2)]
    unfolding aq by (intro mult_less_le_imp_less) simp_all
  then have nov: "\<not> DBL_LIMIT \<le> \<bar>q\<bar>" by (simp add: DBL_LIMIT_split)
  have "sgn q * \<bar>q\<bar> = q" by (simp add: sgn_mult_abs)
  with False nov show ?thesis
    by (simp add: round_double_def Let_def ex_def [symmetric] rhe bk del: of_int_mult of_int_power)
qed

lemma round_double_normal:
  assumes "0 < q" and e: "- 1074 \<le> e"
    and lo: "2 ^ 52 * 2 powi e \<le> q" and hi: "q < 2 ^ 53 * 2 powi e"
    and m: "round_half_even (q / 2 powi e) = m"
    and nov: "of_int m * 2 powi e < DBL_LIMIT"
  shows "round_double q = Finite (of_int m * 2 powi e)"
proof -
  have "ilog2 q = e + 52"
  proof (rule ilog2_unique [OF assms(1)])
    show "2 powi (e + 52) \<le> q" using lo by (simp add: two_powi_add mult.commute)
    show "q < 2 powi (e + 52 + 1)" using hi by (simp add: two_powi_add mult.commute)
  qed
  then have "max (ilog2 \<bar>q\<bar> - 52) (- 1074) = e"
    using assms(1) e by simp
  then show ?thesis
    using assms(1) m nov by (simp add: round_double_def Let_def)
qed

section \<open>Concrete roundings\<close>

text \<open>The doubles that occur in the examples, each certified against \<open>round_double\<close>:
  \<open>0.3\<close> is \<open>5404319552844595 / 2 ^ 54\<close>, \<open>0.9\<close> is \<open>8106479329266893 / 2 ^ 53\<close>, and
  \<open>3 * 0.3\<close> lies exactly halfway between two doubles and rounds to the even one,
  \<open>8106479329266892 / 2 ^ 53\<close> (printed by Python as \<open>0.8999999999999999\<close>).\<close>

lemma rd_int: "\<bar>k\<bar> < 2 ^ 53 \<Longrightarrow> round_double (of_int k) = Finite (of_int k)"
  using round_double_exact [of "of_int k" k 0] by simp

lemma rd_0: "round_double 0 = Finite 0" by (simp add: round_double_def)
lemma rd_1: "round_double 1 = Finite 1" using rd_int [of 1] by simp
lemma rd_2: "round_double 2 = Finite 2" using rd_int [of 2] by simp
lemma rd_3: "round_double 3 = Finite 3" using rd_int [of 3] by simp
lemma rd_4: "round_double 4 = Finite 4" using rd_int [of 4] by simp
lemma rd_quarter: "round_double (1 / 4) = Finite (1 / 4)"
  using round_double_exact [of "1 / 4" 1 "- 2"] by simp
lemma rd_half: "round_double (1 / 2) = Finite (1 / 2)"
  using round_double_exact [of "1 / 2" 1 "- 1"] by simp
lemma rd_3quarter: "round_double (3 / 4) = Finite (3 / 4)"
  using round_double_exact [of "3 / 4" 3 "- 2"] by simp

lemma rd_03: "round_double (3 / 10) = Finite (5404319552844595 / 18014398509481984)"
  using round_double_normal [of "3 / 10" "- 54" 5404319552844595]
  by (simp add: round_half_even_near DBL_LIMIT_def)

lemma rd_06: "round_double (3 / 5) = Finite (5404319552844595 / 9007199254740992)"
  using round_double_normal [of "3 / 5" "- 53" 5404319552844595]
  by (simp add: round_half_even_near DBL_LIMIT_def)

lemma rd_09: "round_double (9 / 10) = Finite (8106479329266893 / 9007199254740992)"
  using round_double_normal [of "9 / 10" "- 53" 8106479329266893]
  by (simp add: round_half_even_near DBL_LIMIT_def)

lemma rd_03_x1: "round_double (5404319552844595 / 18014398509481984) = Finite (5404319552844595 / 18014398509481984)"
  using round_double_exact [of "5404319552844595 / 18014398509481984" 5404319552844595 "- 54"] by simp

lemma rd_03_x2: "round_double (5404319552844595 / 9007199254740992) = Finite (5404319552844595 / 9007199254740992)"
  using round_double_exact [of "5404319552844595 / 9007199254740992" 5404319552844595 "- 53"] by simp

lemma rd_03_x3: "round_double (16212958658533785 / 18014398509481984) = Finite (2026619832316723 / 2251799813685248)"
  using round_double_normal [of "16212958658533785 / 18014398509481984" "- 53" 8106479329266892]
    round_half_even_tie [of "16212958658533785 / 2" 8106479329266892]
  by (simp add: DBL_LIMIT_def)

lemma rd_1_div_03: "round_double (18014398509481984 / 5404319552844595) = Finite (7505999378950827 / 2251799813685248)"
  using round_double_normal [of "18014398509481984 / 5404319552844595" "- 51" 7505999378950827]
  by (simp add: round_half_even_near DBL_LIMIT_def)

lemma rd_half_div_03: "round_double (9007199254740992 / 5404319552844595) = Finite (7505999378950827 / 4503599627370496)"
  using round_double_normal [of "9007199254740992 / 5404319552844595" "- 52" 7505999378950827]
  by (simp add: round_half_even_near DBL_LIMIT_def)

lemmas rd_simps = rd_0 rd_1 rd_2 rd_3 rd_4 rd_quarter rd_half rd_3quarter rd_03 rd_06 rd_09 rd_03_x1 rd_03_x2 rd_03_x3
  rd_1_div_03 rd_half_div_03

lemma trunc_of_int: "trunc (of_int k) = k"
  by (simp add: trunc_def)

lemma tr_0: "trunc 0 = 0" using trunc_of_int [of 0] by simp
lemma tr_1: "trunc 1 = 1" using trunc_of_int [of 1] by simp
lemma tr_2: "trunc 2 = 2" using trunc_of_int [of 2] by simp
lemma tr_4: "trunc 4 = 4" using trunc_of_int [of 4] by simp
lemma tr_m1: "trunc (- 1) = - 1" using trunc_of_int [of "- 1"] by simp
lemma tr_half: "trunc (1 / 2) = 0" by (simp add: trunc_def floor_eq_iff)
lemma tr_1_div_03: "trunc (7505999378950827 / 2251799813685248) = 3"
  by (simp add: trunc_def floor_eq_iff)
lemma tr_half_div_03: "trunc (7505999378950827 / 4503599627370496) = 1"
  by (simp add: trunc_def floor_eq_iff)

lemma rd_m1: "round_double (- 1) = Finite (- 1)" using rd_int [of "- 1"] by simp

lemmas tr_simps = tr_0 tr_1 tr_2 tr_4 tr_m1 tr_half tr_1_div_03 tr_half_div_03

lemmas float_eval = float_range_def float_div_def float_mul_def float_of_int_def int_mul_float_def float_lit_def ebind_def
   upto.simps

section \<open>What \<open>float_range\<close> computes\<close>

lemma emap_Inr:
  assumes "\<And>x. x \<in> set xs \<Longrightarrow> f x = Inr (g x)"
  shows "emap f xs = Inr (map g xs)"
  using assms by (induction xs) (simp_all add: ebind_def)

lemma emap_Inr_iff:
  "emap f xs = Inr ys \<longleftrightarrow> map f xs = map Inr ys"
proof (induction xs arbitrary: ys)
  case Nil
  then show ?case by auto
next
  case (Cons x xs)
  show ?case
  proof (cases "f x")
    case (Inl e)
    then show ?thesis by (auto simp: ebind_def)
  next
    case (Inr y)
    show ?thesis
    proof (cases "emap f xs")
      case (Inl e)
      with Cons.IH have "\<And>zs. map f xs \<noteq> map Inr zs" by simp
      with Inl Inr show ?thesis by (auto simp: ebind_def)
    next
      case r: (Inr zs)
      from Cons.IH [of zs] r have "map f xs = map Inr zs" by simp
      with r Inr show ?thesis
        by (auto simp: ebind_def inj_map_eq_map [OF inj_Inr])
    qed
  qed
qed

lemma abs_trunc_le: "\<bar>of_int (trunc x)\<bar> \<le> \<bar>x\<bar>"
  by (simp add: trunc_def)

lemma float_div_Finite_bound:
  assumes "float_div x y = Inr (Finite a)"
  shows "\<bar>a\<bar> \<le> DBL_MAX"
proof -
  have z: "0 \<le> DBL_MAX" by (simp add: DBL_MAX_def)
  from assms show ?thesis
    by (cases x; cases y)
       (auto simp: float_div_def inf_of_sign_def z split: if_splits dest: round_double_Finite_bound)
qed

lemma float_of_int_between:
  assumes a: "\<bar>a\<bar> \<le> DBL_MAX" and b: "\<bar>b\<bar> \<le> DBL_MAX"
    and k: "trunc a \<le> k" "k \<le> trunc b"
  shows "float_of_int k = Inr (round_double (of_int k))"
proof -
  have "\<bar>(of_int k :: rat)\<bar> \<le> max \<bar>of_int (trunc a)\<bar> \<bar>of_int (trunc b)\<bar>"
    using k by (simp add: abs_le_iff le_max_iff_disj) linarith
  also have "\<dots> \<le> DBL_MAX"
    using abs_trunc_le [of a] abs_trunc_le [of b] a b by simp
  finally obtain r where "round_double (of_int k) = Finite r"
    using round_double_Finite by blast
  then show ?thesis by (simp add: float_of_int_def)
qed

lemma float_range_eq:
  assumes "float_div start step = Inr (Finite a)" and "float_div stop step = Inr (Finite b)"
  shows "float_range start stop step =
           Inr (map (\<lambda>k. float_mul (round_double (of_int k)) step) [trunc a..trunc b])"
proof -
  have ab: "\<bar>a\<bar> \<le> DBL_MAX" "\<bar>b\<bar> \<le> DBL_MAX"
    using assms by (auto dest: float_div_Finite_bound)
  have "emap (\<lambda>x. int_mul_float x step) [trunc a..trunc b] =
          Inr (map (\<lambda>k. float_mul (round_double (of_int k)) step) [trunc a..trunc b])"
    by (rule emap_Inr) (simp add: int_mul_float_def ebind_def float_of_int_between [OF ab])
  with assms show ?thesis
    by (simp add: float_range_def ebind_def)
qed

lemma float_range_error_cases:
  assumes "float_range start stop step = Inl e"
  shows "e \<in> {ZeroDivisionError, OverflowError, ValueError}"
proof -
  have d: "float_div x y = Inl e' \<Longrightarrow> e' = ZeroDivisionError" for x y e'
    by (auto simp: float_div_def split: if_splits)
  have i: "py_int x = Inl e' \<Longrightarrow> e' = OverflowError \<or> e' = ValueError" for x e'
    by (cases x) auto
  have fin: "py_int x = Inr k \<Longrightarrow> \<exists>a. x = Finite a \<and> k = trunc a" for x k
    by (cases x) auto
  show ?thesis
  proof (cases "float_div start step")
    case (Inl e1)
    with assms d [OF Inl] show ?thesis by (simp add: float_range_def ebind_def)
  next
    case qa: (Inr x)
    show ?thesis
    proof (cases "py_int x")
      case (Inl e1)
      with assms qa i [OF Inl] show ?thesis by (auto simp: float_range_def ebind_def)
    next
      case lo: (Inr lo)
      show ?thesis
      proof (cases "float_div stop step")
        case (Inl e1)
        with assms qa lo d [OF Inl] show ?thesis by (simp add: float_range_def ebind_def)
      next
        case qb: (Inr y)
        show ?thesis
        proof (cases "py_int y")
          case (Inl e1)
          with assms qa lo qb i [OF Inl] show ?thesis by (auto simp: float_range_def ebind_def)
        next
          case hi: (Inr hi)
          from fin [OF lo] fin [OF hi] obtain a b where "x = Finite a" "y = Finite b" by blast
          with qa qb float_range_eq [of start step a stop b] assms show ?thesis by simp
        qed
      qed
    qed
  qed
qed

text \<open>
  The values of an expanded range need not be pairwise different. From \<open>2 ^ 53\<close> on,
  neighbouring integers share a double (\<open>2 ^ 53 + 1\<close> is a tie and rounds to
  \<open>2 ^ 53\<close>), so \<open>float_range(9007199254740992.0, 9007199254740994.0, 1.0)\<close> lists
  the value \<open>9007199254740992.0\<close> twice.
\<close>

lemma rd_2p53: "round_double 9007199254740992 = Finite 9007199254740992"
  using round_double_exact [of 9007199254740992 4503599627370496 1] by simp

lemma rd_2p53_2: "round_double 9007199254740994 = Finite 9007199254740994"
  using round_double_exact [of 9007199254740994 4503599627370497 1] by simp

lemma rd_2p53_1: "round_double 9007199254740993 = Finite 9007199254740992"
  using round_double_normal [of 9007199254740993 1 4503599627370496]
    round_half_even_tie [of "9007199254740993 / 2" 4503599627370496]
  by (simp add: DBL_LIMIT_def)

lemma float_range_repeats:
  "float_range (float_lit 9007199254740992) (float_lit 9007199254740994) (float_lit 1) =
     Inr [Finite 9007199254740992, Finite 9007199254740992, Finite 9007199254740994]"
proof -
  have t: "trunc 9007199254740992 = 9007199254740992" "trunc 9007199254740994 = 9007199254740994"
    using trunc_of_int [of 9007199254740992] trunc_of_int [of 9007199254740994] by simp_all
  have u: "[9007199254740992..9007199254740994] =
      [9007199254740992, 9007199254740993, 9007199254740994::int]"
    by (simp add: upto.simps)
  show ?thesis
    by (simp add: float_range_def float_div_def float_mul_def float_of_int_def int_mul_float_def
        float_lit_def ebind_def rd_simps rd_2p53 rd_2p53_1 rd_2p53_2 t u)
qed

section \<open>Facts about the product and the pools\<close>

lemma itertools_product_two:
  "itertools_product [xs, ys] = concat (map (\<lambda>x. map (\<lambda>y. [x, y]) ys) xs)"
  by (simp add: itertools_product_def map_concat comp_def)

lemma length_3E:
  assumes "length xs = 3"
  obtains a b c where "xs = [a, b, c]"
  using assms by (auto simp: numeral_3_eq_3 length_Suc_conv)









lemma itertools_product_one: "itertools_product [xs] = map (\<lambda>y. [y]) xs"
  by (simp add: itertools_product_def)

lemma example_space:
  "yield_parameter_space [(''a'', float_lit 0, float_lit 2, float_lit 1)] =
     Inr [[Finite 0], [Finite 1], [Finite 2]]"
  by (simp add: yield_parameter_space_def itertools_product_one float_eval rd_simps tr_simps)

lemma double_target_values:
  "double_target [Finite 0] = Inr (Finite 0)"
  "double_target [Finite 1] = Inr (Finite 2)"
  "double_target [Finite 2] = Inr (Finite 4)"
  by (simp_all add: double_target_def float_mul_def float_lit_def rd_simps)


lemma example_lines:
  "format_line example_format6 [Finite 0] (Finite 0) = ''0.0 0.0'' @ [CHR 0x0A]"
  "format_line example_format6 [Finite 1] (Finite 2) = ''1.0 2.0'' @ [CHR 0x0A]"
  "format_line example_format6 [Finite 2] (Finite 4) = ''2.0 4.0'' @ [CHR 0x0A]"
  by (simp_all add: format_line_def example_format6_def)

lemmas main_eval = main_def Let_def returning_def finish_def EXIT_getattr_def cores_of_def
  ProcessPoolExecutor_def example_env_def example_module_def make_parser_for_main_def
  print_def drain_def reorder_def invoke_callback_def save_on_complete_def run_save_def
  save_def fp_write_def example_space

section \<open>Claims about the range expander\<close>

text \<open>
  C1 (the stated contract, refuted by the code at a dyadic input where every float
  operation is exact): the claim says that for \<open>step > 0\<close> and \<open>start \<le> stop\<close> the
  result is \<open>start, start + step, \<dots>\<close> up to \<open>stop\<close>, with
  \<open>\<lfloor>(stop - start) / step\<rfloor> + 1\<close> elements and first element \<open>start\<close>. For
  \<open>float_range(0.5, 2.0, 1.0)\<close> that would be \<open>[0.5, 1.5]\<close>; the code returns
  \<open>[0.0, 1.0, 2.0]\<close>: three elements, the first one below \<open>start\<close>, although the
  function's docstring promises an "inclusive range from <start> to <stop>".
\<close>

theorem float_range_half_two_one:
  "float_lit (1 / 2) = Finite (1 / 2) \<and> float_lit 2 = Finite 2 \<and> float_lit 1 = Finite 1 \<and>
   float_range (float_lit (1 / 2)) (float_lit 2) (float_lit 1) = Inr [Finite 0, Finite 1, Finite 2]"
  by (simp add: float_eval rd_simps tr_simps)

text \<open>
  C2 as stated (for \<open>step \<le> 0\<close> or \<open>start > stop\<close> the expander fails instead of
  returning a sequence) does not hold: \<open>float_range(2, 1, 1)\<close> and
  \<open>float_range(0, 1, -1)\<close> both return the empty list.
\<close>

theorem float_range_invalid_returns:
  "float_range (float_lit 2) (float_lit 1) (float_lit 1) = Inr [] \<and>
   float_range (float_lit 0) (float_lit 1) (float_lit (- 1)) = Inr []"
  by (simp add: float_eval rd_simps tr_simps rd_m1)

text \<open>
  C2, amended: the expander validates nothing and has no range error of its own. A zero
  step fails with ZeroDivisionError (raised by the division). For any other step it
  returns a sequence exactly when both quotients \<open>start / step\<close> and \<open>stop / step\<close> are
  finite floats, whatever the sign of \<open>step\<close> and the order of \<open>start\<close> and \<open>stop\<close>;
  otherwise \<open>int()\<close> raises OverflowError or ValueError. No other exception occurs.
\<close>

theorem float_range_failures:
  "(step = Finite 0 \<longrightarrow> float_range start stop step = Inl ZeroDivisionError) \<and>
   (step \<noteq> Finite 0 \<longrightarrow>
      (\<exists>fs. float_range start stop step = Inr fs) =
      (\<exists>a b. float_div start step = Inr (Finite a) \<and> float_div stop step = Inr (Finite b))) \<and>
   (\<forall>e. float_range start stop step = Inl e \<longrightarrow>
      e = ZeroDivisionError \<or> e = OverflowError \<or> e = ValueError)"
proof (intro conjI impI allI)
  assume "step = Finite 0"
  then show "float_range start stop step = Inl ZeroDivisionError"
    by (simp add: float_range_def float_div_def ebind_def)
next
  assume nz: "step \<noteq> Finite 0"
  show "(\<exists>fs. float_range start stop step = Inr fs) =
        (\<exists>a b. float_div start step = Inr (Finite a) \<and> float_div stop step = Inr (Finite b))"
  proof
    assume "\<exists>fs. float_range start stop step = Inr fs"
    then obtain fs where fs: "float_range start stop step = Inr fs" ..
    obtain x y where xy: "float_div start step = Inr x" "float_div stop step = Inr y"
      using nz by (simp add: float_div_def)
    from fs xy obtain lo where lo: "py_int x = Inr lo"
      by (cases "py_int x") (simp_all add: float_range_def ebind_def)
    from fs xy lo obtain hi where hi: "py_int y = Inr hi"
      by (cases "py_int y") (simp_all add: float_range_def ebind_def)
    from lo obtain a where "x = Finite a" by (cases x) simp_all
    moreover from hi obtain b where "y = Finite b" by (cases y) simp_all
    ultimately show "\<exists>a b. float_div start step = Inr (Finite a) \<and>
        float_div stop step = Inr (Finite b)"
      using xy by simp
  next
    assume "\<exists>a b. float_div start step = Inr (Finite a) \<and> float_div stop step = Inr (Finite b)"
    then show "\<exists>fs. float_range start stop step = Inr fs"
      by (auto simp: float_range_eq)
  qed
next
  fix e
  assume "float_range start stop step = Inl e"
  then show "e = ZeroDivisionError \<or> e = OverflowError \<or> e = ValueError"
    using float_range_error_cases by blast
qed

theorem float_range_failures_witness:
  "float_lit 0 = Finite 0 \<and> float_lit (- 1) \<noteq> Finite 0 \<and>
   float_range (float_lit 2) (float_lit 1) (float_lit 0) = Inl ZeroDivisionError \<and>
   (\<exists>fs. float_range (float_lit 0) (float_lit 1) (float_lit (- 1)) = Inr fs) \<and>
   float_div (float_lit 0) (float_lit (- 1)) = Inr (Finite 0) \<and>
   float_div (float_lit 1) (float_lit (- 1)) = Inr (Finite (- 1))"
proof -
  have z: "float_lit 0 = Finite 0" and m: "float_lit (- 1) \<noteq> Finite 0"
    by (simp_all add: float_lit_def rd_simps rd_m1)
  have d: "float_div (float_lit 0) (float_lit (- 1)) = Inr (Finite 0)"
      "float_div (float_lit 1) (float_lit (- 1)) = Inr (Finite (- 1))"
    by (simp_all add: float_div_def float_lit_def rd_simps rd_m1)
  from float_range_failures [of "float_lit 0" "float_lit 2" "float_lit 1"] z
  have "float_range (float_lit 2) (float_lit 1) (float_lit 0) = Inl ZeroDivisionError" by blast
  moreover from float_range_failures [of "float_lit (- 1)" "float_lit 0" "float_lit 1"] m d
  have "\<exists>fs. float_range (float_lit 0) (float_lit 1) (float_lit (- 1)) = Inr fs" by blast
  ultimately show ?thesis using z m d by blast
qed

section \<open>Claims about the parameter space builder\<close>

text \<open>
  C3: for two axes whose expanded ranges each consist of three values (three pairwise
  different floats), the builder yields exactly 9 pairwise different tuples; they are
  exactly the ordered pairs of an axis-1 value and an axis-2 value, each pair occurring
  once; and they are enumerated with the last-declared axis running fastest (tuple
  number \<open>3 * i + j\<close> pairs value \<open>i\<close> of the first axis with value \<open>j\<close> of the
  second).
\<close>

theorem parameter_space_3x3:
  assumes "float_range s1 e1 d1 = Inr xs" and "length xs = 3" and "distinct xs"
    and "float_range s2 e2 d2 = Inr ys" and "length ys = 3" and "distinct ys"
  shows "\<exists>ts. yield_parameter_space [(n1, s1, e1, d1), (n2, s2, e2, d2)] = Inr ts \<and>
           length ts = 9 \<and> distinct ts \<and>
           set ts = {[x, y] | x y. x \<in> set xs \<and> y \<in> set ys} \<and>
           (\<forall>x \<in> set xs. \<forall>y \<in> set ys. count_list ts [x, y] = 1) \<and>
           (\<forall>i<3. \<forall>j<3. ts ! (3 * i + j) = [xs ! i, ys ! j])"
proof -
  obtain a b c where xs: "xs = [a, b, c]" using assms(2) by (rule length_3E)
  obtain u v w where ys: "ys = [u, v, w]" using assms(5) by (rule length_3E)
  define ts where "ts = [[a, u], [a, v], [a, w], [b, u], [b, v], [b, w], [c, u], [c, v], [c, w]]"
  have r: "yield_parameter_space [(n1, s1, e1, d1), (n2, s2, e2, d2)] = Inr ts"
    using assms(1,4)
    by (simp add: yield_parameter_space_def ebind_def itertools_product_two xs ys ts_def)
  have l: "length ts = 9" by (simp add: ts_def)
  have d: "distinct ts" using assms(3,6) by (auto simp: ts_def xs ys)
  have s: "set ts = {[x, y] | x y. x \<in> set xs \<and> y \<in> set ys}"
    by (auto simp: ts_def xs ys)
  have c: "count_list ts [x, y] = 1" if "x \<in> set xs" "y \<in> set ys" for x y
    using that assms(3,6) by (auto simp: ts_def xs ys)
  have n: "ts ! (3 * i + j) = [xs ! i, ys ! j]" if "i < 3" "j < 3" for i j
  proof -
    from that have "i = 0 \<or> i = 1 \<or> i = 2" "j = 0 \<or> j = 1 \<or> j = 2" by auto
    then show ?thesis by (auto simp: ts_def xs ys)
  qed
  from r l d s c n show ?thesis by blast
qed

theorem parameter_space_3x3_witness:
  "float_range (float_lit 0) (float_lit 2) (float_lit 1) = Inr [Finite 0, Finite 1, Finite 2] \<and>
   float_range (float_lit 0) (float_lit 1) (float_lit (1 / 2)) =
     Inr [Finite 0, Finite (1 / 2), Finite 1] \<and>
   yield_parameter_space
     [(''a'', float_lit 0, float_lit 2, float_lit 1),
      (''b'', float_lit 0, float_lit 1, float_lit (1 / 2))] =
     Inr [[Finite 0, Finite 0], [Finite 0, Finite (1 / 2)], [Finite 0, Finite 1],
          [Finite 1, Finite 0], [Finite 1, Finite (1 / 2)], [Finite 1, Finite 1],
          [Finite 2, Finite 0], [Finite 2, Finite (1 / 2)], [Finite 2, Finite 1]] \<and>
   distinct (projr (yield_parameter_space
     [(''a'', float_lit 0, float_lit 2, float_lit 1),
      (''b'', float_lit 0, float_lit 1, float_lit (1 / 2))])) \<and>
   length (projr (yield_parameter_space
     [(''a'', float_lit 0, float_lit 2, float_lit 1),
      (''b'', float_lit 0, float_lit 1, float_lit (1 / 2))])) = 9"
proof -
  have a: "float_range (float_lit 0) (float_lit 2) (float_lit 1) =
             Inr [Finite 0, Finite 1, Finite 2]"
    by (simp add: float_eval rd_simps tr_simps)
  have b: "float_range (float_lit 0) (float_lit 1) (float_lit (1 / 2)) =
             Inr [Finite 0, Finite (1 / 2), Finite 1]"
    by (simp add: float_eval rd_simps tr_simps)
  have ev: "yield_parameter_space
     [(''a'', float_lit 0, float_lit 2, float_lit 1),
      (''b'', float_lit 0, float_lit 1, float_lit (1 / 2))] =
     Inr [[Finite 0, Finite 0], [Finite 0, Finite (1 / 2)], [Finite 0, Finite 1],
          [Finite 1, Finite 0], [Finite 1, Finite (1 / 2)], [Finite 1, Finite 1],
          [Finite 2, Finite 0], [Finite 2, Finite (1 / 2)], [Finite 2, Finite 1]]"
    by (simp add: yield_parameter_space_def ebind_def a b itertools_product_two)
  from parameter_space_3x3 [OF a _ _ b, of "''a''" "''b''"]
  obtain ts where "yield_parameter_space
     [(''a'', float_lit 0, float_lit 2, float_lit 1),
      (''b'', float_lit 0, float_lit 1, float_lit (1 / 2))] = Inr ts"
    and "length ts = 9" and "distinct ts"
    by auto
  with ev a b show ?thesis by simp
qed

section \<open>Claims about the result sink and the orchestrator\<close>



text \<open>
  C5 (refuted by the code): when \<open>fp.write\<close> raises an I/O error, \<open>save\<close> does not
  log and does not return \<open>EXIT.WRITE_IN_THREAD_FAILED\<close>. Its handler starts with
  \<open>print(e.msg)\<close>, and an OSError has no attribute \<open>msg\<close>, so the handler itself
  raises AttributeError before anything is printed. What does hold: the write is not
  retried (one call of \<open>fp.write\<close>), and nothing is appended.
\<close>

theorem save_io_error_raises:
  assumes "write_fault env (writes w) = Some (errno, strerror)"
  shows "save env state result w =
           (Inl (AttributeError ''msg''), w\<lparr>writes := Suc (writes w)\<rparr>)"
  using assms by (simp add: save_def fp_write_def)

theorem save_io_error_raises_witness:
  "write_fault faulty_disk_env (writes \<lparr>out_swp = [], writes = 1, stdout = []\<rparr>) =
     Some (28, ''No space left on device'') \<and>
   save faulty_disk_env [Finite 0] (Finite 0) \<lparr>out_swp = [], writes = 1, stdout = []\<rparr> =
     (Inl (AttributeError ''msg''), \<lparr>out_swp = [], writes = 2, stdout = []\<rparr>)"
proof -
  have h: "write_fault faulty_disk_env (writes \<lparr>out_swp = [], writes = 1, stdout = []\<rparr>) =
     Some (28, ''No space left on device'')"
    by (simp add: faulty_disk_env_def)
  from save_io_error_raises [OF h, of "[Finite 0]" "Finite 0"] h show ?thesis by simp
qed

text \<open>
  C6 (refuted by the code): in the example study with a disk that refuses the second
  write, one record is lost and \<open>main\<close> still returns \<open>EXIT.OK\<close> (exit status 0).
  What a save task returns or raises is never read, and the last statement of \<open>main\<close>
  is \<open>return EXIT.OK\<close>.
\<close>

theorem main_ok_despite_write_failure:
  "write_fault faulty_disk_env 1 = Some (28, ''No space left on device'') \<and>
   status (main faulty_disk_env ''study'') = Inr OK \<and> EXIT_value OK = 0 \<and>
   submitted (main faulty_disk_env ''study'') = [[Finite 0], [Finite 1], [Finite 2]] \<and>
   out_swp (final (main faulty_disk_env ''study'')) =
     [''0.0 0.0'' @ [CHR 0x0A], ''1.0 2.0'' @ [CHR 0x0A]] \<and>
   stdout (final (main faulty_disk_env ''study'')) =
     [''starting task submission'', ''Runtime: 0.01s'', ''All tasks done, file closed succesfully'']"
  by (simp add: faulty_disk_env_def main_eval double_target_values example_lines)

text \<open>
  C7 (refuted by the code): for a module without \<open>main\<close> the orchestrator prints its
  message and stops before anything is dispatched, but it does not return the
  no-valid-entry-point code: \<open>EXIT.NO_MAIN\<close> is not a member of the enum (the member
  is \<open>NO_MAIN_IN_MODULE\<close>, value 2), so the \<open>return\<close> statement raises AttributeError.
\<close>

theorem main_without_entry_point:
  "import_module no_main_env ''study'' = Inr \<lparr>mod_name = ''study'', mod_main = None\<rparr> \<and>
   status (main no_main_env ''study'') = Inl (AttributeError ''NO_MAIN'') \<and>
   stdout (final (main no_main_env ''study'')) = [''no main function found in study''] \<and>
   submitted (main no_main_env ''study'') = [] \<and>
   EXIT_getattr ''NO_MAIN_IN_MODULE'' = Inr NO_MAIN_IN_MODULE \<and>
   EXIT_value NO_MAIN_IN_MODULE = 2"
  by (simp add: no_main_env_def main_eval)

text \<open>
  C8 as stated fails on a machine with a single processing unit: the worker count is
  \<open>0\<close>, and creating the process pool raises ValueError.
\<close>

theorem single_core_worker_count:
  "cpu_count single_core_env = Some 1 \<and>
   cores (main single_core_env ''study'') = Some 0 \<and>
   status (main single_core_env ''study'') = Inl ValueError \<and>
   submitted (main single_core_env ''study'') = []"
  by (simp add: single_core_env_def main_eval)

text \<open>
  C8, amended: in every run that gets as far as configuring the pool on a machine that
  reports \<open>n\<close> processing units, the compute worker count is \<open>n - 1\<close>; it is at least
  1 exactly when \<open>n \<ge> 2\<close>. No minimum is applied.
\<close>

theorem worker_count:
  assumes "import_module env script = Inr m" and "mod_main m = Some f"
    and "parse_known_args env (fst (make_parser_for_main f)) = Inr args"
    and "open_error env = None" and "cpu_count env = Some n"
  shows "cores (main env script) = Some (int n - 1) \<and>
         (1 \<le> int n - 1 \<longleftrightarrow> 2 \<le> n)"
  using assms
  by (auto simp: main_def Let_def returning_def finish_def cores_of_def
      ProcessPoolExecutor_def split: sum.splits)

theorem worker_count_witness:
  "cpu_count (example_env (example_module double_target)) = Some 4 \<and>
   cores (main (example_env (example_module double_target)) ''study'') = Some 3"
proof -
  let ?m = "example_module double_target"
  let ?f = "\<lparr>annotations = [(''a'', ''float''), (''return'', ''float'')], call = double_target\<rparr>"
  have h1: "import_module (example_env ?m) ''study'' = Inr ?m"
    by (simp add: example_env_def)
  have h2: "mod_main ?m = Some ?f" by (simp add: example_module_def)
  have h3: "parse_known_args (example_env ?m) (fst (make_parser_for_main ?f)) =
              Inr [(''a'', float_lit 0, float_lit 2, float_lit 1)]"
    by (simp add: example_env_def make_parser_for_main_def)
  have h4: "open_error (example_env ?m) = None" and h5: "cpu_count (example_env ?m) = Some 4"
    by (simp_all add: example_env_def)
  from worker_count [OF h1 h2 h3 h4 h5] h5 show ?thesis by simp
qed

section \<open>Further claims about the range expander\<close>

text \<open>
  C9 as stated fails in its second half: \<open>float_range(0, 1, 0.3)\<close> is not
  \<open>[0, 0.3, 0.6, 0.9]\<close>, because its last element \<open>3 * 0.3\<close> is not the double \<open>0.9\<close>.
\<close>

theorem float_range_03_not_literal:
  "float_range (float_lit 0) (float_lit 1) (float_lit (3 / 10)) \<noteq>
     Inr [float_lit 0, float_lit (3 / 10), float_lit (6 / 10), float_lit (9 / 10)]"
  by (simp add: float_eval rd_simps tr_simps)

text \<open>
  C9, amended: \<open>float_range(0, 1, 0.25)\<close> is exactly \<open>[0, 0.25, 0.5, 0.75, 1.0]\<close>
  (5 values), and \<open>float_range(0, 1, 0.3)\<close> is exactly the four values
  \<open>[0, 0.3, 0.6, 3 * 0.3]\<close>, whose last element is the double
  \<open>8106479329266892 / 2 ^ 53\<close> (\<open>0.8999999999999999\<close>), one unit in the last place
  below the double \<open>0.9 = 8106479329266893 / 2 ^ 53\<close>; the endpoint \<open>1.0\<close> is excluded.
\<close>

theorem float_range_examples:
  "float_range (float_lit 0) (float_lit 1) (float_lit (1 / 4)) =
     Inr [float_lit 0, float_lit (1 / 4), float_lit (1 / 2), float_lit (3 / 4), float_lit 1] \<and>
   float_range (float_lit 0) (float_lit 1) (float_lit (3 / 10)) =
     Inr [float_lit 0, float_lit (3 / 10), float_lit (6 / 10),
          Finite (8106479329266892 / 2 ^ 53)] \<and>
   float_lit (9 / 10) = Finite (8106479329266893 / 2 ^ 53) \<and>
   float_lit 1 \<notin> set (projr (float_range (float_lit 0) (float_lit 1) (float_lit (3 / 10))))"
  by (simp add: float_eval rd_simps tr_simps)



end
